theory Spec2Isabelle
  imports Complex_Main
begin

section \<open>Numeric values\<close>

text \<open>
  The metric code of \<^verbatim>\<open>instageo/model/run.py\<close> counts pixels with integers and divides
  the counts with numpy's true division, which never raises: a zero divisor gives
  \<^verbatim>\<open>nan\<close> (for \<^verbatim>\<open>0 / 0\<close>) or an infinity, with a warning only. A float is
  modelled as the exact quotient it stands for, or as one of the three special values;
  rounding to binary64 is not modelled.
\<close>

datatype npfloat = Fin rat | PInf | NInf | NaN

definition true_divide :: "int \<Rightarrow> int \<Rightarrow> npfloat" where
  "true_divide a b =
     (if b \<noteq> 0 then Fin (of_int a / of_int b)
      else if a = 0 then NaN
      else if 0 < a then PInf else NInf)"

fun np_add :: "npfloat \<Rightarrow> npfloat \<Rightarrow> npfloat" where
  "np_add (Fin a) (Fin b) = Fin (a + b)"
| "np_add NaN _ = NaN"
| "np_add _ NaN = NaN"
| "np_add PInf NInf = NaN"
| "np_add NInf PInf = NaN"
| "np_add PInf _ = PInf"
| "np_add _ PInf = PInf"
| "np_add NInf _ = NInf"
| "np_add _ NInf = NInf"

fun div_count :: "npfloat \<Rightarrow> nat \<Rightarrow> npfloat" where
  "div_count (Fin s) n =
     (if n \<noteq> 0 then Fin (s / of_nat n)
      else if s = 0 then NaN
      else if 0 < s then PInf else NInf)"
| "div_count v n = v"

definition np_mean :: "npfloat list \<Rightarrow> npfloat" where
  \<comment> \<open>\<^verbatim>\<open>np.mean\<close>: the sum of the entries over their number.\<close>
  "np_mean xs = div_count (foldl np_add (Fin 0) xs) (length xs)"

definition np_eq :: "npfloat \<Rightarrow> npfloat \<Rightarrow> bool" where
  \<comment> \<open>IEEE equality: \<^verbatim>\<open>nan\<close> equals nothing, itself included.\<close>
  "np_eq a b = (a \<noteq> NaN \<and> b \<noteq> NaN \<and> a = b)"

section \<open>Boolean and integer arrays\<close>

text \<open>
  A tensor is modelled by the list of its elements in row-major order, the order in
  which \<^verbatim>\<open>masked_select\<close> flattens it.
\<close>

definition np_sum :: "bool list \<Rightarrow> int" where
  "np_sum bs = int (length (filter (\<lambda>b. b) bs))"

definition np_any :: "bool list \<Rightarrow> bool" where
  "np_any bs = list_ex (\<lambda>b. b) bs"

definition logical_and :: "bool list \<Rightarrow> bool list \<Rightarrow> bool list" where
  "logical_and xs ys = map2 (\<and>) xs ys"

definition logical_or :: "bool list \<Rightarrow> bool list \<Rightarrow> bool list" where
  "logical_or xs ys = map2 (\<or>) xs ys"

definition eq_scalar :: "int list \<Rightarrow> int \<Rightarrow> bool list" where
  \<comment> \<open>\<^verbatim>\<open>mask == clas\<close>\<close>
  "eq_scalar xs c = map (\<lambda>v. v = c) xs"

definition eq_arrays :: "int list \<Rightarrow> int list \<Rightarrow> bool list" where
  \<comment> \<open>\<^verbatim>\<open>pred_mask == gt_mask\<close>\<close>
  "eq_arrays xs ys = map2 (=) xs ys"

definition ne_scalar :: "int list \<Rightarrow> int \<Rightarrow> bool list" where
  \<comment> \<open>\<^verbatim>\<open>gt_mask.ne(ignore_index)\<close>\<close>
  "ne_scalar xs c = map (\<lambda>v. v \<noteq> c) xs"

definition masked_select :: "int list \<Rightarrow> bool list \<Rightarrow> int list" where
  "masked_select xs keep = map fst (filter snd (zip xs keep))"

definition np_unique :: "int list \<Rightarrow> int list" where
  \<comment> \<open>\<^verbatim>\<open>np.unique\<close>: the distinct values, ascending.\<close>
  "np_unique xs = sort (remdups xs)"

fun argmax_from :: "rat list \<Rightarrow> nat \<Rightarrow> nat \<Rightarrow> rat \<Rightarrow> nat" where
  "argmax_from [] i best_i best_v = best_i"
| "argmax_from (x # xs) i best_i best_v =
     (if best_v < x then argmax_from xs (Suc i) i x
      else argmax_from xs (Suc i) best_i best_v)"

fun argmax :: "rat list \<Rightarrow> int" where
  \<comment> \<open>the index of the first maximal entry\<close>
  "argmax [] = 0"
| "argmax (x # xs) = int (argmax_from xs 1 0 x)"

section \<open>The metric computation\<close>

datatype error = IndexError | ShapeError | AxisError

text \<open>
  \<^verbatim>\<open>torch.argmax(pred_mask, dim=1)\<close> (line 236). The logits have shape (B, C, H, W);
  they are given pixel by pixel, each pixel with the list of its C class scores. A class
  dimension of size zero makes torch raise.
\<close>

definition torch_argmax_dim1 :: "rat list list \<Rightarrow> error + int list" where
  "torch_argmax_dim1 logits =
     (if [] \<in> set logits then Inl IndexError else Inr (map argmax logits))"

record per_class =
  iou_per_class :: "npfloat list"
  acc_per_class :: "npfloat list"
  precision_per_class :: "npfloat list"
  recall_per_class :: "npfloat list"

record report = per_class +
  iou :: npfloat
  acc :: npfloat

text \<open>The counts of one class (lines 248 to 255), over the masks left after masking.\<close>

definition intersection_cls :: "int list \<Rightarrow> int list \<Rightarrow> int \<Rightarrow> bool list" where
  "intersection_cls pred gt clas = logical_and (eq_scalar pred clas) (eq_scalar gt clas)"

definition union_cls :: "int list \<Rightarrow> int list \<Rightarrow> int \<Rightarrow> bool list" where
  "union_cls pred gt clas = logical_or (eq_scalar pred clas) (eq_scalar gt clas)"

definition true_positive :: "int list \<Rightarrow> int list \<Rightarrow> int \<Rightarrow> int" where
  "true_positive pred gt clas = np_sum (intersection_cls pred gt clas)"

definition false_positive :: "int list \<Rightarrow> int list \<Rightarrow> int \<Rightarrow> int" where
  "false_positive pred gt clas = np_sum (eq_scalar pred clas) - true_positive pred gt clas"

definition false_negative :: "int list \<Rightarrow> int list \<Rightarrow> int \<Rightarrow> int" where
  "false_negative pred gt clas = np_sum (eq_scalar gt clas) - true_positive pred gt clas"

text \<open>The four ratios of one class (lines 258, 261, 264 to 268 and 271 to 275).\<close>

definition class_iou :: "int list \<Rightarrow> int list \<Rightarrow> int \<Rightarrow> npfloat" where
  "class_iou pred gt clas =
     true_divide (np_sum (intersection_cls pred gt clas)) (np_sum (union_cls pred gt clas))"

definition class_accuracy :: "int list \<Rightarrow> int list \<Rightarrow> int \<Rightarrow> npfloat" where
  "class_accuracy pred gt clas =
     (if 0 < np_sum (eq_scalar gt clas)
      then true_divide (true_positive pred gt clas) (np_sum (eq_scalar gt clas))
      else Fin 0)"

definition class_precision :: "int list \<Rightarrow> int list \<Rightarrow> int \<Rightarrow> npfloat" where
  "class_precision pred gt clas =
     (if 0 < true_positive pred gt clas + false_positive pred gt clas
      then true_divide (true_positive pred gt clas)
             (true_positive pred gt clas + false_positive pred gt clas)
      else Fin 0)"

definition class_recall :: "int list \<Rightarrow> int list \<Rightarrow> int \<Rightarrow> npfloat" where
  "class_recall pred gt clas =
     (if 0 < true_positive pred gt clas + false_negative pred gt clas
      then true_divide (true_positive pred gt clas)
             (true_positive pred gt clas + false_negative pred gt clas)
      else Fin 0)"

text \<open>
  One pass of the loop over the classes (lines 247 to 276): the IoU is appended only
  when the union of the two class masks is not empty, the other three always.
\<close>

definition class_step :: "int list \<Rightarrow> int list \<Rightarrow> per_class \<Rightarrow> int \<Rightarrow> per_class" where
  "class_step pred gt st clas =
     (let st1 = (if np_any (union_cls pred gt clas)
                 then st\<lparr>iou_per_class := iou_per_class st @ [class_iou pred gt clas]\<rparr>
                 else st)
      in st1\<lparr>acc_per_class := acc_per_class st1 @ [class_accuracy pred gt clas],
              precision_per_class := precision_per_class st1 @ [class_precision pred gt clas],
              recall_per_class := recall_per_class st1 @ [class_recall pred gt clas]\<rparr>)"

definition no_lists :: per_class where
  "no_lists = \<lparr>iou_per_class = [], acc_per_class = [],
               precision_per_class = [], recall_per_class = []\<rparr>"

text \<open>Lines 237 to 240: the pixels kept, and the classes found among them.\<close>

definition kept_pred :: "int \<Rightarrow> int list \<Rightarrow> int list \<Rightarrow> int list" where
  "kept_pred ignore_index pred_mask gt_mask =
     masked_select pred_mask (ne_scalar gt_mask ignore_index)"

definition kept_gt :: "int \<Rightarrow> int list \<Rightarrow> int list" where
  "kept_gt ignore_index gt_mask = masked_select gt_mask (ne_scalar gt_mask ignore_index)"

definition classes :: "int \<Rightarrow> int list \<Rightarrow> int list \<Rightarrow> int list" where
  "classes ignore_index pred_mask gt_mask =
     np_unique (kept_gt ignore_index gt_mask @ kept_pred ignore_index pred_mask gt_mask)"

text \<open>
  Lines 237 to 288, on the class mask that \<^verbatim>\<open>argmax\<close> returned. \<^verbatim>\<open>masked_select\<close>
  raises when the mask and the tensor have shapes that do not broadcast; the two masks
  of a call have the same shape, and every other pair of shapes is the error branch.
\<close>

definition metrics_of_masks :: "int \<Rightarrow> int list \<Rightarrow> int list \<Rightarrow> error + report" where
  "metrics_of_masks ignore_index pred_mask gt_mask =
     (if length pred_mask \<noteq> length gt_mask then Inl ShapeError
      else
        let pred = kept_pred ignore_index pred_mask gt_mask;
            gt = kept_gt ignore_index gt_mask;
            st = foldl (class_step pred gt) no_lists (classes ignore_index pred_mask gt_mask);
            mean_iou = (if iou_per_class st \<noteq> [] then np_mean (iou_per_class st) else Fin 0);
            overall_accuracy = true_divide (np_sum (eq_arrays pred gt)) (int (length gt))
        in Inr \<lparr>iou_per_class = iou_per_class st,
                acc_per_class = acc_per_class st,
                precision_per_class = precision_per_class st,
                recall_per_class = recall_per_class st,
                iou = mean_iou, acc = overall_accuracy\<rparr>)"

definition compute_metrics :: "int \<Rightarrow> rat list list \<Rightarrow> int list \<Rightarrow> error + report" where
  "compute_metrics ignore_index logits gt_mask =
     (case torch_argmax_dim1 logits of
        Inl e \<Rightarrow> Inl e
      | Inr pred_mask \<Rightarrow> metrics_of_masks ignore_index pred_mask gt_mask)"

text \<open>
  The mean IoU as the specification words it (section 4.4), not as the source computes
  it: the classes with no ground-truth pixel are left out of the average.
\<close>

definition spec_mean_iou :: "int \<Rightarrow> int list \<Rightarrow> int list \<Rightarrow> npfloat" where
  "spec_mean_iou ignore_index pred_mask gt_mask =
     (let pred = kept_pred ignore_index pred_mask gt_mask;
          gt = kept_gt ignore_index gt_mask;
          with_gt = filter (\<lambda>c. 0 < np_sum (eq_scalar gt c))
                      (classes ignore_index pred_mask gt_mask);
          ious = map (class_iou pred gt) with_gt
      in if ious \<noteq> [] then np_mean ious else Fin 0)"

text \<open>
  The quotient of line 258 as a rational number; it is the IoU of every class whose union
  is not empty.
\<close>

definition iou_ratio :: "int list \<Rightarrow> int list \<Rightarrow> int \<Rightarrow> rat" where
  "iou_ratio pred gt clas =
     of_int (np_sum (intersection_cls pred gt clas)) / of_int (np_sum (union_cls pred gt clas))"

section \<open>Masking the stitched prediction\<close>

text \<open>
  The sliding-window branch of \<^verbatim>\<open>main\<close> marks the no-data pixels of the tile that
  \<^verbatim>\<open>process_data\<close> loaded (lines 505 and 506) and, once \<^verbatim>\<open>sliding_window_inference\<close>
  has returned the stitched prediction, overwrites those pixels (line 523). Both helpers
  live in other modules: the tile and the prediction are parameters here. An array is its
  shape and its elements in row-major order.
\<close>

record 'a ndarray =
  shape :: "nat list"
  elems :: "'a list"

definition eq_value :: "npfloat ndarray \<Rightarrow> npfloat \<Rightarrow> bool ndarray" where
  \<comment> \<open>\<^verbatim>\<open>hls_tile == no_data_value\<close>\<close>
  "eq_value a v = \<lparr>shape = shape a, elems = map (\<lambda>x. np_eq x v) (elems a)\<rparr>"

definition np_any_axis0 :: "bool ndarray \<Rightarrow> error + bool ndarray" where
  \<comment> \<open>\<^verbatim>\<open>np.any(a, axis=0)\<close>; an array without dimensions has no axis 0\<close>
  "np_any_axis0 a =
     (case shape a of
        [] \<Rightarrow> Inl AxisError
      | d0 # rest \<Rightarrow>
          let inner = prod_list rest
          in Inr \<lparr>shape = rest,
                  elems = map (\<lambda>p. list_ex (\<lambda>c. elems a ! (c * inner + p)) [0..<d0])
                              [0..<inner]\<rparr>)"

definition astype_int :: "bool ndarray \<Rightarrow> int ndarray" where
  "astype_int a = \<lparr>shape = shape a, elems = map (\<lambda>b. if b then 1 else 0) (elems a)\<rparr>"

definition nan_mask :: "npfloat ndarray \<Rightarrow> npfloat \<Rightarrow> error + int ndarray" where
  "nan_mask hls_tile no_data_value =
     (case np_any_axis0 (eq_value hls_tile no_data_value) of
        Inl e \<Rightarrow> Inl e
      | Inr m \<Rightarrow> Inr (astype_int m))"

text \<open>
  \<^verbatim>\<open>np.where(nan_mask == 1, np.nan, prediction)\<close>. The stitched surface has the spatial
  extent of the tile; numpy raises for shapes that do not broadcast, and every pair of
  unequal shapes is the error branch here.
\<close>

definition np_where_nan :: "int ndarray \<Rightarrow> npfloat ndarray \<Rightarrow> error + npfloat ndarray" where
  "np_where_nan m prediction =
     (if shape m \<noteq> shape prediction then Inl ShapeError
      else Inr \<lparr>shape = shape prediction,
                elems = map2 (\<lambda>b x. if b = 1 then NaN else x) (elems m) (elems prediction)\<rparr>)"

definition masked_prediction ::
  "npfloat ndarray \<Rightarrow> npfloat \<Rightarrow> npfloat ndarray \<Rightarrow> error + npfloat ndarray" where
  "masked_prediction hls_tile no_data_value prediction =
     (case nan_mask hls_tile no_data_value of
        Inl e \<Rightarrow> Inl e
      | Inr m \<Rightarrow> np_where_nan m prediction)"

section \<open>Properties of the building blocks\<close>

subsection \<open>Masking and the class universe\<close>

lemma kept_pred_pairs:
  "length pred_mask = length gt_mask \<Longrightarrow>
   kept_pred ign pred_mask gt_mask = map fst (filter (\<lambda>(p, g). g \<noteq> ign) (zip pred_mask gt_mask))"
  unfolding kept_pred_def masked_select_def ne_scalar_def
  by (induction pred_mask gt_mask rule: list_induct2) simp_all

lemma kept_gt_pairs:
  "length pred_mask = length gt_mask \<Longrightarrow>
   kept_gt ign gt_mask = map snd (filter (\<lambda>(p, g). g \<noteq> ign) (zip pred_mask gt_mask))"
  unfolding kept_gt_def masked_select_def ne_scalar_def
  by (induction pred_mask gt_mask rule: list_induct2) simp_all

lemma kept_gt_filter: "kept_gt ign gt_mask = filter (\<lambda>g. g \<noteq> ign) gt_mask"
  unfolding kept_gt_def masked_select_def ne_scalar_def
  by (induction gt_mask) simp_all

lemma length_kept:
  "length pred_mask = length gt_mask \<Longrightarrow>
   length (kept_pred ign pred_mask gt_mask) = length (kept_gt ign gt_mask)"
  by (simp add: kept_pred_pairs kept_gt_pairs [of pred_mask gt_mask])

lemma set_kept_pred:
  "length pred_mask = length gt_mask \<Longrightarrow>
   c \<in> set (kept_pred ign pred_mask gt_mask) \<longleftrightarrow>
     (\<exists>i<length gt_mask. gt_mask ! i \<noteq> ign \<and> pred_mask ! i = c)"
proof -
  assume len: "length pred_mask = length gt_mask"
  have "c \<in> set (kept_pred ign pred_mask gt_mask) \<longleftrightarrow>
        (\<exists>g. (c, g) \<in> set (zip pred_mask gt_mask) \<and> g \<noteq> ign)"
    by (force simp add: kept_pred_pairs [OF len])
  also have "\<dots> \<longleftrightarrow> (\<exists>i<length gt_mask. gt_mask ! i \<noteq> ign \<and> pred_mask ! i = c)"
    using len by (auto simp add: in_set_zip)
  finally show ?thesis .
qed

lemma set_kept_gt:
  "c \<in> set (kept_gt ign gt_mask) \<longleftrightarrow> (\<exists>i<length gt_mask. gt_mask ! i \<noteq> ign \<and> gt_mask ! i = c)"
  by (auto simp add: kept_gt_filter in_set_conv_nth)

lemma kept_pred_none_ignored: "ign \<notin> set gt_mask \<Longrightarrow> kept_pred ign gt_mask gt_mask = gt_mask"
  unfolding kept_pred_def masked_select_def ne_scalar_def by (induction gt_mask) auto

lemma kept_gt_none_ignored: "ign \<notin> set gt_mask \<Longrightarrow> kept_gt ign gt_mask = gt_mask"
  unfolding kept_gt_filter by (induction gt_mask) auto

lemma set_np_unique: "set (np_unique xs) = set xs"
  by (simp add: np_unique_def)

lemma sorted_np_unique: "sorted (np_unique xs)"
  by (simp add: np_unique_def)

lemma distinct_np_unique: "distinct (np_unique xs)"
  by (simp add: np_unique_def)

lemma set_classes:
  "set (classes ign pred_mask gt_mask) = set (kept_pred ign pred_mask gt_mask) \<union> set (kept_gt ign gt_mask)"
  by (auto simp add: classes_def set_np_unique)

lemma strict_sorted_classes: "sorted_wrt (<) (classes ign pred_mask gt_mask)"
  by (simp add: classes_def strict_sorted_iff sorted_np_unique distinct_np_unique)

lemma length_classes:
  "length (classes ign pred_mask gt_mask) =
   card (set (kept_pred ign pred_mask gt_mask) \<union> set (kept_gt ign gt_mask))"
proof -
  have "distinct (classes ign pred_mask gt_mask)"
    by (simp add: classes_def distinct_np_unique)
  then have "card (set (classes ign pred_mask gt_mask)) = length (classes ign pred_mask gt_mask)"
    by (rule distinct_card)
  then show ?thesis by (simp add: set_classes)
qed

subsection \<open>Counting\<close>

lemma np_sum_nonneg: "0 \<le> np_sum bs"
  by (simp add: np_sum_def)

lemma np_sum_pos: "0 < np_sum bs \<longleftrightarrow> np_any bs"
  unfolding np_sum_def np_any_def by (induction bs) auto

lemma np_any_eq_scalar: "np_any (eq_scalar xs c) \<longleftrightarrow> c \<in> set xs"
  unfolding np_any_def eq_scalar_def list_ex_iff by auto

lemma np_sum_eq_scalar_pos: "0 < np_sum (eq_scalar xs c) \<longleftrightarrow> c \<in> set xs"
  by (simp add: np_sum_pos np_any_eq_scalar)

lemma np_any_union:
  "length pred = length gt \<Longrightarrow> np_any (union_cls pred gt c) \<longleftrightarrow> c \<in> set pred \<union> set gt"
  unfolding np_any_def union_cls_def logical_or_def eq_scalar_def
  by (induction pred gt rule: list_induct2) auto

lemma np_sum_union_pos:
  "length pred = length gt \<Longrightarrow> 0 < np_sum (union_cls pred gt c) \<longleftrightarrow> c \<in> set pred \<union> set gt"
  by (simp add: np_sum_pos np_any_union)

lemma true_positive_absent_gt: "c \<notin> set gt \<Longrightarrow> true_positive pred gt c = 0"
  unfolding true_positive_def intersection_cls_def np_sum_def logical_and_def eq_scalar_def
  by (induction pred gt rule: list_induct2') auto

lemma true_positive_same: "true_positive xs xs c = np_sum (eq_scalar xs c)"
  unfolding true_positive_def intersection_cls_def np_sum_def logical_and_def eq_scalar_def
  by (induction xs) auto

lemma union_same: "np_sum (union_cls xs xs c) = np_sum (eq_scalar xs c)"
  unfolding union_cls_def np_sum_def logical_or_def eq_scalar_def
  by (induction xs) auto

lemma np_sum_eq_arrays:
  "length pred_mask = length gt_mask \<Longrightarrow>
   np_sum (eq_arrays (kept_pred ign pred_mask gt_mask) (kept_gt ign gt_mask)) =
   int (length (filter (\<lambda>(p, g). g \<noteq> ign \<and> p = g) (zip pred_mask gt_mask)))"
  unfolding kept_pred_def kept_gt_def masked_select_def ne_scalar_def eq_arrays_def np_sum_def
  by (induction pred_mask gt_mask rule: list_induct2) simp_all

subsection \<open>Ratios and the mean\<close>

lemma class_accuracy_recall: "class_accuracy pred gt c = class_recall pred gt c"
  by (simp add: class_accuracy_def class_recall_def false_negative_def)

lemma class_iou_ratio:
  assumes "length pred = length gt" and "c \<in> set pred \<union> set gt"
  shows "class_iou pred gt c = Fin (iou_ratio pred gt c)"
proof -
  have "0 < np_sum (union_cls pred gt c)"
    using assms by (simp add: np_sum_union_pos)
  then show ?thesis
    by (simp add: class_iou_def iou_ratio_def true_divide_def)
qed

lemma iou_ratio_absent_gt: "c \<notin> set gt \<Longrightarrow> iou_ratio pred gt c = 0"
  using true_positive_absent_gt [of c gt pred] by (simp add: iou_ratio_def true_positive_def)

lemma perfect_class:
  assumes "c \<in> set xs"
  shows "false_positive xs xs c = 0" "false_negative xs xs c = 0"
    "class_iou xs xs c = Fin 1" "class_accuracy xs xs c = Fin 1"
    "class_precision xs xs c = Fin 1" "class_recall xs xs c = Fin 1"
proof -
  have pos: "0 < np_sum (eq_scalar xs c)"
    using assms by (simp add: np_sum_eq_scalar_pos)
  show "false_positive xs xs c = 0"
    by (simp add: false_positive_def true_positive_same)
  show "false_negative xs xs c = 0"
    by (simp add: false_negative_def true_positive_same)
  have tp: "np_sum (intersection_cls xs xs c) = np_sum (eq_scalar xs c)"
    using true_positive_same [of xs c] by (simp add: true_positive_def)
  show "class_iou xs xs c = Fin 1"
    using pos by (simp add: class_iou_def tp union_same true_divide_def)
  show "class_accuracy xs xs c = Fin 1"
    using pos by (simp add: class_accuracy_def true_positive_same true_divide_def)
  show "class_precision xs xs c = Fin 1"
    using pos by (simp add: class_precision_def false_positive_def true_positive_same true_divide_def)
  show "class_recall xs xs c = Fin 1"
    using pos by (simp add: class_recall_def false_negative_def true_positive_same true_divide_def)
qed

lemma foldl_np_add_Fin: "foldl np_add (Fin a) (map (\<lambda>c. Fin (f c)) cs) = Fin (a + sum_list (map f cs))"
  by (induction cs arbitrary: a) (simp_all add: add.assoc)

lemma np_mean_Fin:
  "cs \<noteq> [] \<Longrightarrow> np_mean (map (\<lambda>c. Fin (f c)) cs) = Fin (sum_list (map f cs) / of_nat (length cs))"
  by (simp add: np_mean_def foldl_np_add_Fin)

subsection \<open>The loop and the report\<close>

text \<open>
  The loop appends one entry per class to the accuracy, precision and recall lists, and one
  IoU per class whose union is not empty. Every class of the universe occurs in one of the
  two kept masks, so its union is never empty and the guard of line 257 always holds
  inside the loop.
\<close>

lemma foldl_class_step:
  "foldl (class_step pred gt) st cs =
     st\<lparr>iou_per_class := iou_per_class st @
            map (class_iou pred gt) (filter (\<lambda>c. np_any (union_cls pred gt c)) cs),
        acc_per_class := acc_per_class st @ map (class_accuracy pred gt) cs,
        precision_per_class := precision_per_class st @ map (class_precision pred gt) cs,
        recall_per_class := recall_per_class st @ map (class_recall pred gt) cs\<rparr>"
  by (induction cs arbitrary: st) (simp_all add: class_step_def Let_def)

lemma filter_classes:
  assumes "length pred_mask = length gt_mask"
  shows "filter (\<lambda>c. np_any (union_cls (kept_pred ign pred_mask gt_mask) (kept_gt ign gt_mask) c))
           (classes ign pred_mask gt_mask) = classes ign pred_mask gt_mask"
  using assms by (simp add: np_any_union length_kept set_classes)

lemma loop_result:
  assumes "length pred_mask = length gt_mask"
  shows "foldl (class_step (kept_pred ign pred_mask gt_mask) (kept_gt ign gt_mask)) no_lists
           (classes ign pred_mask gt_mask) =
         \<lparr>iou_per_class = map (class_iou (kept_pred ign pred_mask gt_mask) (kept_gt ign gt_mask)) (classes ign pred_mask gt_mask),
          acc_per_class = map (class_accuracy (kept_pred ign pred_mask gt_mask) (kept_gt ign gt_mask)) (classes ign pred_mask gt_mask),
          precision_per_class = map (class_precision (kept_pred ign pred_mask gt_mask) (kept_gt ign gt_mask)) (classes ign pred_mask gt_mask),
          recall_per_class = map (class_recall (kept_pred ign pred_mask gt_mask) (kept_gt ign gt_mask)) (classes ign pred_mask gt_mask)\<rparr>"
  by (simp add: foldl_class_step filter_classes [OF assms] no_lists_def)

lemma metrics_of_masks_eq:
  assumes "length pred_mask = length gt_mask"
  shows "metrics_of_masks ign pred_mask gt_mask =
    Inr \<lparr>iou_per_class = map (class_iou (kept_pred ign pred_mask gt_mask) (kept_gt ign gt_mask)) (classes ign pred_mask gt_mask),
          acc_per_class = map (class_accuracy (kept_pred ign pred_mask gt_mask) (kept_gt ign gt_mask)) (classes ign pred_mask gt_mask),
          precision_per_class = map (class_precision (kept_pred ign pred_mask gt_mask) (kept_gt ign gt_mask)) (classes ign pred_mask gt_mask),
          recall_per_class = map (class_recall (kept_pred ign pred_mask gt_mask) (kept_gt ign gt_mask)) (classes ign pred_mask gt_mask),
          iou = (if classes ign pred_mask gt_mask \<noteq> []
                 then np_mean (map (class_iou (kept_pred ign pred_mask gt_mask) (kept_gt ign gt_mask)) (classes ign pred_mask gt_mask))
                 else Fin 0),
          acc = true_divide (np_sum (eq_arrays (kept_pred ign pred_mask gt_mask) (kept_gt ign gt_mask)))
                  (int (length (kept_gt ign gt_mask)))\<rparr>"
  using assms by (simp add: metrics_of_masks_def Let_def loop_result)

text \<open>
  When every ground-truth pixel is ignored nothing is kept: there is no class, the lists
  stay empty, the mean IoU takes its default, and the overall accuracy is the quotient of
  zero by zero.
\<close>

lemma all_ignored_report:
  assumes "length pred_mask = length gt_mask"
    and "\<forall>g\<in>set gt_mask. g = ign"
  shows "metrics_of_masks ign pred_mask gt_mask =
     Inr \<lparr>iou_per_class = [], acc_per_class = [], precision_per_class = [],
           recall_per_class = [], iou = Fin 0, acc = NaN\<rparr>"
proof -
  have kg: "kept_gt ign gt_mask = []"
    using assms(2) by (simp add: kept_gt_filter filter_empty_conv)
  then have kp: "kept_pred ign pred_mask gt_mask = []"
    using length_kept [OF assms(1), of ign] by simp
  have cs: "classes ign pred_mask gt_mask = []"
    by (simp add: classes_def kg kp np_unique_def)
  show ?thesis
    by (simp add: metrics_of_masks_eq [OF assms(1)] cs kg kp eq_arrays_def np_sum_def
        true_divide_def)
qed

lemma compute_metrics_eq:
  assumes "torch_argmax_dim1 logits = Inr pred_mask"
  shows "compute_metrics ign logits gt_mask = metrics_of_masks ign pred_mask gt_mask"
  using assms by (simp add: compute_metrics_def)

lemma class_iou_ratio_classes:
  assumes "length pred_mask = length gt_mask"
  shows "map (class_iou (kept_pred ign pred_mask gt_mask) (kept_gt ign gt_mask))
           (classes ign pred_mask gt_mask) =
         map (\<lambda>c. Fin (iou_ratio (kept_pred ign pred_mask gt_mask) (kept_gt ign gt_mask) c))
           (classes ign pred_mask gt_mask)"
proof (rule map_cong [OF refl])
  fix c assume "c \<in> set (classes ign pred_mask gt_mask)"
  then have "c \<in> set (kept_pred ign pred_mask gt_mask) \<union> set (kept_gt ign gt_mask)"
    by (simp add: set_classes)
  then show "class_iou (kept_pred ign pred_mask gt_mask) (kept_gt ign gt_mask) c =
             Fin (iou_ratio (kept_pred ign pred_mask gt_mask) (kept_gt ign gt_mask) c)"
    using length_kept [OF assms] by (simp add: class_iou_ratio)
qed

subsection \<open>The no-data mask\<close>

lemma flat_index_bound:
  fixes c p C n :: nat
  assumes "c < C" and "p < n"
  shows "c * n + p < C * n"
proof -
  have "c * n + p < c * n + n" using assms(2) by simp
  also have "\<dots> = Suc c * n" by simp
  also have "\<dots> \<le> C * n" using assms(1) by (intro mult_le_mono1) simp
  finally show ?thesis .
qed

lemma nan_mask_eq:
  assumes "shape hls_tile = C # rest"
  shows "nan_mask hls_tile no_data_value =
     Inr \<lparr>shape = rest,
          elems = map (\<lambda>p. if list_ex (\<lambda>c. map (\<lambda>x. np_eq x no_data_value) (elems hls_tile)
                                            ! (c * prod_list rest + p)) [0..<C]
                            then 1 else 0) [0..<prod_list rest]\<rparr>"
  using assms
  by (simp add: nan_mask_def np_any_axis0_def eq_value_def astype_int_def Let_def comp_def)

lemma any_channel:
  assumes "length (elems hls_tile) = C * n" and "p < n"
  shows "list_ex (\<lambda>c. map (\<lambda>x. np_eq x v) (elems hls_tile) ! (c * n + p)) [0..<C] \<longleftrightarrow>
         (\<exists>c<C. np_eq (elems hls_tile ! (c * n + p)) v)"
proof -
  have "map (\<lambda>x. np_eq x v) (elems hls_tile) ! (c * n + p) = np_eq (elems hls_tile ! (c * n + p)) v"
    if "c < C" for c
    using flat_index_bound [OF that assms(2)] assms(1) by simp
  then show ?thesis
    by (auto simp add: list_ex_iff)
qed

lemma masked_prediction_flat:
  assumes "shape hls_tile = C # rest"
    and "length (elems hls_tile) = C * prod_list rest"
    and "shape prediction = rest"
    and "length (elems prediction) = prod_list rest"
  shows "\<exists>out. masked_prediction hls_tile no_data_value prediction = Inr out
           \<and> shape out = rest
           \<and> length (elems out) = prod_list rest
           \<and> (\<forall>p<prod_list rest.
                elems out ! p =
                  (if \<exists>c<C. np_eq (elems hls_tile ! (c * prod_list rest + p)) no_data_value
                   then NaN else elems prediction ! p))"
  using assms
  by (auto simp add: masked_prediction_def nan_mask_eq np_where_nan_def any_channel)

subsection \<open>Evaluation on concrete inputs\<close>

lemmas mask_unfold = torch_argmax_dim1_def kept_pred_def kept_gt_def masked_select_def
  ne_scalar_def classes_def np_unique_def

lemmas metric_unfold = compute_metrics_def metrics_of_masks_def class_step_def no_lists_def
  true_positive_def false_positive_def false_negative_def intersection_cls_def union_cls_def
  logical_and_def logical_or_def class_iou_def class_accuracy_def class_precision_def
  class_recall_def eq_scalar_def eq_arrays_def np_sum_def np_any_def true_divide_def
  np_mean_def Let_def

section \<open>The claims\<close>

text \<open>
  Claim C1 as the specification states it: a class that the prediction contains but
  that has no ground-truth pixel left after masking is excluded from the mean IoU. The
  code does not do that. For the ground truth \<open>[0, 0]\<close> and the predicted classes
  \<open>[0, 1]\<close>, class 1 has an IoU of 0 that is an entry of the IoU vector, and the mean
  is (1/2 + 0) / 2 = 1/4, while the mean without class 1 is 1/2.
\<close>

theorem mean_iou_counts_class_without_gt_counterexample:
  "compute_metrics (- 100) [[1, 0], [0, 1]] [0, 0] =
     Inr \<lparr>iou_per_class = [Fin (1 / 2), Fin 0],
           acc_per_class = [Fin (1 / 2), Fin 0],
           precision_per_class = [Fin 1, Fin 0],
           recall_per_class = [Fin (1 / 2), Fin 0],
           iou = Fin (1 / 4), acc = Fin (1 / 2)\<rparr>
   \<and> spec_mean_iou (- 100) [0, 1] [0, 0] = Fin (1 / 2)
   \<and> iou (projr (compute_metrics (- 100) [[1, 0], [0, 1]] [0, 0]))
       \<noteq> spec_mean_iou (- 100) [0, 1] [0, 0]"
  by (simp add: mask_unfold metric_unfold spec_mean_iou_def)

text \<open>
  Claim C1, amended: for a class \<open>c\<close> that occurs among the kept predictions and has
  no kept ground-truth pixel, the IoU of \<open>c\<close> is zero, it is the entry of \<open>c\<close> in
  the IoU vector, and it counts as zero in the mean IoU, which is the sum of the IoUs of
  all classes of the universe over the number of those classes. The per-class accuracy of
  \<open>c\<close> is zero.
\<close>

theorem predicted_class_without_gt_counts_as_zero:
  assumes "torch_argmax_dim1 logits = Inr pred_mask"
    and "length pred_mask = length gt_mask"
    and "c \<in> set (kept_pred ign pred_mask gt_mask)"
    and "c \<notin> set (kept_gt ign gt_mask)"
  shows "\<exists>r k. compute_metrics ign logits gt_mask = Inr r
           \<and> k < length (classes ign pred_mask gt_mask)
           \<and> classes ign pred_mask gt_mask ! k = c
           \<and> length (iou_per_class r) = length (classes ign pred_mask gt_mask)
           \<and> length (acc_per_class r) = length (classes ign pred_mask gt_mask)
           \<and> iou_per_class r ! k = Fin 0
           \<and> acc_per_class r ! k = Fin 0
           \<and> iou r = np_mean (iou_per_class r)
           \<and> iou r = Fin (sum_list (map (iou_ratio (kept_pred ign pred_mask gt_mask)
                                             (kept_gt ign gt_mask))
                                     (classes ign pred_mask gt_mask))
                          / of_nat (length (classes ign pred_mask gt_mask)))"
proof -
  let ?P = "kept_pred ign pred_mask gt_mask" and ?G = "kept_gt ign gt_mask"
  let ?cs = "classes ign pred_mask gt_mask"
  from assms(3) have "c \<in> set ?cs"
    by (simp add: set_classes)
  then obtain k where k: "k < length ?cs" "?cs ! k = c"
    by (auto simp add: in_set_conv_nth)
  then have ne: "?cs \<noteq> []"
    by auto
  have len: "length ?P = length ?G"
    using assms(2) by (rule length_kept)
  have "class_iou ?P ?G c = Fin (iou_ratio ?P ?G c)"
    using len assms(3) by (simp add: class_iou_ratio)
  then have iou0: "class_iou ?P ?G c = Fin 0"
    using assms(4) by (simp add: iou_ratio_absent_gt)
  have acc0: "class_accuracy ?P ?G c = Fin 0"
    using assms(4) by (simp add: class_accuracy_def np_sum_eq_scalar_pos)
  have mean: "np_mean (map (class_iou ?P ?G) ?cs) =
              Fin (sum_list (map (iou_ratio ?P ?G) ?cs) / of_nat (length ?cs))"
    unfolding class_iou_ratio_classes [OF assms(2)] using ne by (rule np_mean_Fin)
  define r where "r =
      \<lparr>iou_per_class = map (class_iou ?P ?G) ?cs,
       acc_per_class = map (class_accuracy ?P ?G) ?cs,
       precision_per_class = map (class_precision ?P ?G) ?cs,
       recall_per_class = map (class_recall ?P ?G) ?cs,
       iou = np_mean (map (class_iou ?P ?G) ?cs),
       acc = true_divide (np_sum (eq_arrays ?P ?G)) (int (length ?G))\<rparr>"
  have res: "compute_metrics ign logits gt_mask = Inr r"
    using assms(1,2) ne by (simp add: compute_metrics_eq metrics_of_masks_eq r_def)
  have lens: "length (iou_per_class r) = length ?cs" "length (acc_per_class r) = length ?cs"
    by (simp_all add: r_def)
  have at_k: "iou_per_class r ! k = Fin 0" "acc_per_class r ! k = Fin 0"
    using k iou0 acc0 by (simp_all add: r_def)
  have m1: "iou r = np_mean (iou_per_class r)"
    by (simp add: r_def)
  have m2: "iou r = Fin (sum_list (map (iou_ratio ?P ?G) ?cs) / of_nat (length ?cs))"
    using mean by (simp add: r_def)
  from res k lens at_k m1 m2 show ?thesis
    by blast
qed

theorem predicted_class_without_gt_counts_as_zero_witness:
  "torch_argmax_dim1 [[1, 0], [0, 1]] = Inr [0, 1]
   \<and> 1 \<in> set (kept_pred (- 100) [0, 1] [0, 0])
   \<and> 1 \<notin> set (kept_gt (- 100) [0, 0])
   \<and> (\<exists>r. compute_metrics (- 100) [[1, 0], [0, 1]] [0, 0] = Inr r
          \<and> iou_per_class r ! 1 = Fin 0 \<and> acc_per_class r ! 1 = Fin 0
          \<and> length (iou_per_class r) = 2 \<and> iou r = np_mean (iou_per_class r))"
proof -
  have h1: "torch_argmax_dim1 [[1, 0], [0, 1]] = Inr [0, 1]"
    by (simp add: mask_unfold)
  have h2: "length [0, 1 :: int] = length [0, 0 :: int]"
    by simp
  have h3: "1 \<in> set (kept_pred (- 100) [0, 1] [0, 0])"
    by (simp add: mask_unfold)
  have h4: "1 \<notin> set (kept_gt (- 100) [0, 0])"
    by (simp add: mask_unfold)
  have cs: "classes (- 100) [0, 1] [0, 0] = [0, 1]"
    by (simp add: mask_unfold)
  from predicted_class_without_gt_counts_as_zero [OF h1 h2 h3 h4]
  obtain r k where r: "compute_metrics (- 100) [[1, 0], [0, 1]] [0, 0] = Inr r"
    "k < length (classes (- 100) [0, 1] [0, 0])" "classes (- 100) [0, 1] [0, 0] ! k = 1"
    "length (iou_per_class r) = length (classes (- 100) [0, 1] [0, 0])"
    "iou_per_class r ! k = Fin 0" "acc_per_class r ! k = Fin 0"
    "iou r = np_mean (iou_per_class r)"
    by blast
  from r(2,3) have "k = 1"
    unfolding cs by (cases k) auto
  with r h1 h3 h4 cs show ?thesis
    by auto
qed

text \<open>
  Claim C2: when every ground-truth pixel is the ignore value, the call returns a report
  with no class, empty per-class vectors and a mean IoU of 0.0, and its overall accuracy
  is defined. The first three hold; the overall accuracy does not: line 279 divides the
  zero count of correct pixels by the zero size of the kept mask, and numpy returns
  \<^verbatim>\<open>nan\<close>. Every other quotient of the function is guarded against a zero divisor.
\<close>

theorem all_ignored_overall_accuracy_is_nan:
  "compute_metrics (- 100) [[1, 0], [0, 1]] [- 100, - 100] =
     Inr \<lparr>iou_per_class = [], acc_per_class = [], precision_per_class = [],
           recall_per_class = [], iou = Fin 0, acc = NaN\<rparr>"
  by (simp add: mask_unfold metric_unfold)

text \<open>
  Claim C3: for the ground truth \<open>[[0, 0], [1, 1]]\<close>, the predicted classes
  \<open>[[0, 1], [1, 1]]\<close> and the ignore value -100, class 0 has one true positive, no
  false positive and one false negative, class 1 has two true positives, one false
  positive and no false negative, the IoUs are 1/2 and 2/3, and the overall accuracy is
  3/4. The logits are one-hot scores whose argmax is the predicted mask.
\<close>

theorem end_to_end_scenario:
  "torch_argmax_dim1 (concat [[[1, 0], [0, 1]], [[0, 1], [0, 1]]]) = Inr (concat [[0, 1], [1, 1]])
   \<and> kept_pred (- 100) (concat [[0, 1], [1, 1]]) (concat [[0, 0], [1, 1]]) = [0, 1, 1, 1]
   \<and> kept_gt (- 100) (concat [[0, 0], [1, 1]]) = [0, 0, 1, 1]
   \<and> classes (- 100) (concat [[0, 1], [1, 1]]) (concat [[0, 0], [1, 1]]) = [0, 1]
   \<and> true_positive [0, 1, 1, 1] [0, 0, 1, 1] 0 = 1
   \<and> false_positive [0, 1, 1, 1] [0, 0, 1, 1] 0 = 0
   \<and> false_negative [0, 1, 1, 1] [0, 0, 1, 1] 0 = 1
   \<and> true_positive [0, 1, 1, 1] [0, 0, 1, 1] 1 = 2
   \<and> false_positive [0, 1, 1, 1] [0, 0, 1, 1] 1 = 1
   \<and> false_negative [0, 1, 1, 1] [0, 0, 1, 1] 1 = 0
   \<and> compute_metrics (- 100) (concat [[[1, 0], [0, 1]], [[0, 1], [0, 1]]])
        (concat [[0, 0], [1, 1]]) =
       Inr \<lparr>iou_per_class = [Fin (1 / 2), Fin (2 / 3)],
             acc_per_class = [Fin (1 / 2), Fin 1],
             precision_per_class = [Fin 1, Fin (2 / 3)],
             recall_per_class = [Fin (1 / 2), Fin 1],
             iou = Fin (7 / 12), acc = Fin (3 / 4)\<rparr>"
  by (simp add: mask_unfold metric_unfold)

text \<open>
  Claim C4: when the predicted mask equals the ground truth at every pixel and no pixel
  is the ignore value, every class present has no false positive and no false negative,
  and its IoU, accuracy, precision and recall are all 1.
\<close>

theorem perfect_prediction_scores_one:
  assumes "torch_argmax_dim1 logits = Inr gt_mask"
    and "ign \<notin> set gt_mask"
  shows "\<exists>r. compute_metrics ign logits gt_mask = Inr r
           \<and> kept_pred ign gt_mask gt_mask = gt_mask
           \<and> kept_gt ign gt_mask = gt_mask
           \<and> set (classes ign gt_mask gt_mask) = set gt_mask
           \<and> length (iou_per_class r) = length (classes ign gt_mask gt_mask)
           \<and> length (acc_per_class r) = length (classes ign gt_mask gt_mask)
           \<and> length (precision_per_class r) = length (classes ign gt_mask gt_mask)
           \<and> length (recall_per_class r) = length (classes ign gt_mask gt_mask)
           \<and> (\<forall>k<length (classes ign gt_mask gt_mask).
                false_positive gt_mask gt_mask (classes ign gt_mask gt_mask ! k) = 0
              \<and> false_negative gt_mask gt_mask (classes ign gt_mask gt_mask ! k) = 0
              \<and> iou_per_class r ! k = Fin 1
              \<and> acc_per_class r ! k = Fin 1
              \<and> precision_per_class r ! k = Fin 1
              \<and> recall_per_class r ! k = Fin 1)"
proof -
  have kp: "kept_pred ign gt_mask gt_mask = gt_mask"
    using assms(2) by (rule kept_pred_none_ignored)
  have kg: "kept_gt ign gt_mask = gt_mask"
    using assms(2) by (rule kept_gt_none_ignored)
  have cs: "set (classes ign gt_mask gt_mask) = set gt_mask"
    by (simp add: set_classes kp kg)
  have mem: "classes ign gt_mask gt_mask ! k \<in> set gt_mask"
    if "k < length (classes ign gt_mask gt_mask)" for k
    using that cs nth_mem by blast
  show ?thesis
    using assms(1) cs mem
    by (simp add: compute_metrics_eq metrics_of_masks_eq kp kg perfect_class)
qed

theorem perfect_prediction_scores_one_witness:
  "torch_argmax_dim1 [[1, 0], [0, 1], [0, 1]] = Inr [0, 1, 1]
   \<and> - 100 \<notin> set [0, 1, 1 :: int]
   \<and> (\<exists>r. compute_metrics (- 100) [[1, 0], [0, 1], [0, 1]] [0, 1, 1] = Inr r
          \<and> iou_per_class r ! 0 = Fin 1 \<and> iou_per_class r ! 1 = Fin 1
          \<and> recall_per_class r ! 0 = Fin 1 \<and> precision_per_class r ! 1 = Fin 1)"
proof -
  have h1: "torch_argmax_dim1 [[1, 0], [0, 1], [0, 1]] = Inr [0, 1, 1]"
    by (simp add: mask_unfold)
  have h2: "- 100 \<notin> set [0, 1, 1 :: int]"
    by simp
  have cs: "length (classes (- 100) [0, 1, 1] [0, 1, 1]) = 2"
    by (simp add: mask_unfold)
  from perfect_prediction_scores_one [OF h1 h2] h1 h2 show ?thesis
    unfolding cs by (auto simp add: less_Suc_eq numeral_2_eq_2)
qed

text \<open>
  Claim C5: when some pixel is not ignored, the overall accuracy is the number of kept
  pixels where the prediction equals the ground truth over the number of kept pixels: one
  ratio over all pixels, whatever their class.
\<close>

theorem overall_accuracy_is_global_ratio:
  assumes "torch_argmax_dim1 logits = Inr pred_mask"
    and "length pred_mask = length gt_mask"
    and "\<exists>g\<in>set gt_mask. g \<noteq> ign"
  shows "\<exists>r. compute_metrics ign logits gt_mask = Inr r
           \<and> acc r = Fin (of_nat (length (filter (\<lambda>(p, g). g \<noteq> ign \<and> p = g) (zip pred_mask gt_mask)))
                          / of_nat (length (filter (\<lambda>g. g \<noteq> ign) gt_mask)))"
proof -
  from assms(3) have "filter (\<lambda>g. g \<noteq> ign) gt_mask \<noteq> []"
    by (simp add: filter_empty_conv)
  then have nz: "int (length (filter (\<lambda>g. g \<noteq> ign) gt_mask)) \<noteq> 0"
    by simp
  have len: "int (length (kept_gt ign gt_mask)) = int (length (filter (\<lambda>g. g \<noteq> ign) gt_mask))"
    by (simp add: kept_gt_filter)
  have "true_divide (np_sum (eq_arrays (kept_pred ign pred_mask gt_mask) (kept_gt ign gt_mask)))
               (int (length (kept_gt ign gt_mask)))
        = true_divide (int (length (filter (\<lambda>(p, g). g \<noteq> ign \<and> p = g) (zip pred_mask gt_mask))))
               (int (length (filter (\<lambda>g. g \<noteq> ign) gt_mask)))"
    by (simp only: np_sum_eq_arrays [OF assms(2)] len)
  also have "\<dots> = Fin (of_nat (length (filter (\<lambda>(p, g). g \<noteq> ign \<and> p = g) (zip pred_mask gt_mask)))
                    / of_nat (length (filter (\<lambda>g. g \<noteq> ign) gt_mask)))"
    using nz by (simp add: true_divide_def)
  finally have "true_divide (np_sum (eq_arrays (kept_pred ign pred_mask gt_mask) (kept_gt ign gt_mask)))
               (int (length (kept_gt ign gt_mask)))
        = Fin (of_nat (length (filter (\<lambda>(p, g). g \<noteq> ign \<and> p = g) (zip pred_mask gt_mask)))
                    / of_nat (length (filter (\<lambda>g. g \<noteq> ign) gt_mask)))" .
  then show ?thesis
    using assms(1,2) by (simp add: compute_metrics_eq metrics_of_masks_eq)
qed

theorem overall_accuracy_is_global_ratio_witness:
  "torch_argmax_dim1 [[1, 0], [0, 1], [0, 1]] = Inr [0, 1, 1]
   \<and> (\<exists>g\<in>set [0, 0, - 100 :: int]. g \<noteq> - 100)
   \<and> (\<exists>r. compute_metrics (- 100) [[1, 0], [0, 1], [0, 1]] [0, 0, - 100] = Inr r
          \<and> acc r = Fin (1 / 2))"
proof -
  have h1: "torch_argmax_dim1 [[1, 0], [0, 1], [0, 1]] = Inr [0, 1, 1]"
    by (simp add: mask_unfold)
  have h2: "length [0, 1, 1 :: int] = length [0, 0, - 100 :: int]"
    by simp
  have h3: "\<exists>g\<in>set [0, 0, - 100 :: int]. g \<noteq> - 100"
    by simp
  from overall_accuracy_is_global_ratio [OF h1 h2 h3] h1 h3 show ?thesis
    by simp
qed

text \<open>
  Claim C6: the classes of a call are exactly the values that the ground truth or the
  prediction takes at a pixel whose ground truth is not the ignore value, each once, and
  every per-class vector is computed over that list; no configured number of classes
  enters the computation.
\<close>

theorem class_universe_is_union:
  assumes "torch_argmax_dim1 logits = Inr pred_mask"
    and "length pred_mask = length gt_mask"
  shows "\<exists>r. compute_metrics ign logits gt_mask = Inr r
           \<and> (\<forall>c. c \<in> set (classes ign pred_mask gt_mask) \<longleftrightarrow>
                  (\<exists>i<length gt_mask. gt_mask ! i \<noteq> ign \<and> (gt_mask ! i = c \<or> pred_mask ! i = c)))
           \<and> distinct (classes ign pred_mask gt_mask)
           \<and> iou_per_class r =
               map (class_iou (kept_pred ign pred_mask gt_mask) (kept_gt ign gt_mask))
                 (classes ign pred_mask gt_mask)
           \<and> acc_per_class r =
               map (class_accuracy (kept_pred ign pred_mask gt_mask) (kept_gt ign gt_mask))
                 (classes ign pred_mask gt_mask)
           \<and> precision_per_class r =
               map (class_precision (kept_pred ign pred_mask gt_mask) (kept_gt ign gt_mask))
                 (classes ign pred_mask gt_mask)
           \<and> recall_per_class r =
               map (class_recall (kept_pred ign pred_mask gt_mask) (kept_gt ign gt_mask))
                 (classes ign pred_mask gt_mask)"
proof -
  have univ: "c \<in> set (classes ign pred_mask gt_mask) \<longleftrightarrow>
      (\<exists>i<length gt_mask. gt_mask ! i \<noteq> ign \<and> (gt_mask ! i = c \<or> pred_mask ! i = c))" for c
    unfolding set_classes Un_iff set_kept_pred [OF assms(2)] set_kept_gt by blast
  have dist: "distinct (classes ign pred_mask gt_mask)"
    by (simp add: classes_def distinct_np_unique)
  show ?thesis
    using assms univ dist by (simp add: compute_metrics_eq metrics_of_masks_eq)
qed

theorem class_universe_is_union_witness:
  "torch_argmax_dim1 [[1, 0], [0, 0, 1], [0, 1]] = Inr [0, 2, 1]
   \<and> (\<exists>r. compute_metrics (- 100) [[1, 0], [0, 0, 1], [0, 1]] [0, 0, - 100] = Inr r
          \<and> 2 \<in> set (classes (- 100) [0, 2, 1] [0, 0, - 100])
          \<and> 1 \<notin> set (classes (- 100) [0, 2, 1] [0, 0, - 100])
          \<and> length (iou_per_class r) = 2)"
proof -
  have h1: "torch_argmax_dim1 [[1, 0], [0, 0, 1], [0, 1]] = Inr [0, 2, 1]"
    by (simp add: mask_unfold)
  have h2: "length [0, 2, 1 :: int] = length [0, 0, - 100 :: int]"
    by simp
  have cs: "classes (- 100) [0, 2, 1] [0, 0, - 100] = [0, 2]"
    by (simp add: mask_unfold)
  from class_universe_is_union [OF h1 h2, of "- 100"] h1 show ?thesis
    unfolding cs by auto
qed

text \<open>
  Claim C7: for every class of the universe, a zero precision denominator (true
  positives plus false positives) gives precision zero and a zero recall denominator (true
  positives plus false negatives) gives recall zero; the call returns, and both entries
  are finite numbers.
\<close>

theorem zero_denominator_gives_zero:
  assumes "torch_argmax_dim1 logits = Inr pred_mask"
    and "length pred_mask = length gt_mask"
  shows "\<exists>r. compute_metrics ign logits gt_mask = Inr r
           \<and> length (precision_per_class r) = length (classes ign pred_mask gt_mask)
           \<and> length (recall_per_class r) = length (classes ign pred_mask gt_mask)
           \<and> (\<forall>k<length (classes ign pred_mask gt_mask).
                (true_positive (kept_pred ign pred_mask gt_mask) (kept_gt ign gt_mask)
                     (classes ign pred_mask gt_mask ! k)
                   + false_positive (kept_pred ign pred_mask gt_mask) (kept_gt ign gt_mask)
                     (classes ign pred_mask gt_mask ! k) = 0
                 \<longrightarrow> precision_per_class r ! k = Fin 0)
              \<and> (true_positive (kept_pred ign pred_mask gt_mask) (kept_gt ign gt_mask)
                     (classes ign pred_mask gt_mask ! k)
                   + false_negative (kept_pred ign pred_mask gt_mask) (kept_gt ign gt_mask)
                     (classes ign pred_mask gt_mask ! k) = 0
                 \<longrightarrow> recall_per_class r ! k = Fin 0)
              \<and> (\<exists>q. precision_per_class r ! k = Fin q)
              \<and> (\<exists>q. recall_per_class r ! k = Fin q))"
proof -
  let ?P = "kept_pred ign pred_mask gt_mask" and ?G = "kept_gt ign gt_mask"
  have p0: "true_positive ?P ?G c + false_positive ?P ?G c = 0 \<Longrightarrow> class_precision ?P ?G c = Fin 0" for c
    by (simp add: class_precision_def)
  have r0: "true_positive ?P ?G c + false_negative ?P ?G c = 0 \<Longrightarrow> class_recall ?P ?G c = Fin 0" for c
    by (simp add: class_recall_def)
  have pf: "\<exists>q. class_precision ?P ?G c = Fin q" for c
    by (simp add: class_precision_def true_divide_def)
  have rf: "\<exists>q. class_recall ?P ?G c = Fin q" for c
    by (simp add: class_recall_def true_divide_def)
  show ?thesis
    using assms p0 r0 pf rf
    by (simp add: compute_metrics_eq metrics_of_masks_eq)
qed

theorem zero_denominator_gives_zero_witness:
  "torch_argmax_dim1 [[1, 0], [1, 0]] = Inr [0, 0]
   \<and> true_positive (kept_pred (- 100) [0, 0] [0, 1]) (kept_gt (- 100) [0, 1]) 1
       + false_positive (kept_pred (- 100) [0, 0] [0, 1]) (kept_gt (- 100) [0, 1]) 1 = 0
   \<and> (\<exists>r. compute_metrics (- 100) [[1, 0], [1, 0]] [0, 1] = Inr r
          \<and> precision_per_class r ! 1 = Fin 0)"
proof -
  have h1: "torch_argmax_dim1 [[1, 0], [1, 0]] = Inr [0, 0]"
    by (simp add: mask_unfold)
  have h2: "length [0, 0 :: int] = length [0, 1 :: int]"
    by simp
  have cs: "classes (- 100) [0, 0] [0, 1] = [0, 1]"
    by (simp add: mask_unfold)
  have z: "true_positive (kept_pred (- 100) [0, 0] [0, 1]) (kept_gt (- 100) [0, 1]) 1
       + false_positive (kept_pred (- 100) [0, 0] [0, 1]) (kept_gt (- 100) [0, 1]) 1 = 0"
    by (simp add: mask_unfold true_positive_def false_positive_def intersection_cls_def
        logical_and_def eq_scalar_def np_sum_def)
  from zero_denominator_gives_zero [OF h1 h2, of "- 100"] h1 z show ?thesis
    unfolding cs by auto
qed

text \<open>
  Claim C8: in the sliding-window branch, the written prediction is \<^verbatim>\<open>nan\<close> at every
  pixel where some channel of the loaded tile equals the no-data value, and is the
  stitched prediction at every other pixel. The tile has shape (C, H, W) and the stitched
  prediction the shape (H, W); equality is that of floats.
\<close>

theorem no_data_pixels_become_nan:
  assumes "shape hls_tile = [C, H, W]"
    and "length (elems hls_tile) = C * (H * W)"
    and "shape prediction = [H, W]"
    and "length (elems prediction) = H * W"
  shows "\<exists>out. masked_prediction hls_tile no_data_value prediction = Inr out
           \<and> shape out = [H, W]
           \<and> length (elems out) = H * W
           \<and> (\<forall>i<H. \<forall>j<W.
                elems out ! (i * W + j) =
                  (if \<exists>c<C. np_eq (elems hls_tile ! (c * (H * W) + (i * W + j))) no_data_value
                   then NaN else elems prediction ! (i * W + j)))"
proof -
  have bound: "i * W + j < H * W" if "i < H" "j < W" for i j
    using that by (rule flat_index_bound)
  from masked_prediction_flat [of hls_tile C "[H, W]" prediction no_data_value] assms
  obtain out where out: "masked_prediction hls_tile no_data_value prediction = Inr out"
    "shape out = [H, W]" "length (elems out) = H * W"
    "\<forall>p<H * W. elems out ! p =
        (if \<exists>c<C. np_eq (elems hls_tile ! (c * (H * W) + p)) no_data_value
         then NaN else elems prediction ! p)"
    by auto
  from out(4) bound have "\<forall>i<H. \<forall>j<W.
        elems out ! (i * W + j) =
          (if \<exists>c<C. np_eq (elems hls_tile ! (c * (H * W) + (i * W + j))) no_data_value
           then NaN else elems prediction ! (i * W + j))"
    by blast
  with out(1,2,3) show ?thesis
    by blast
qed

theorem no_data_pixels_become_nan_witness:
  "\<exists>out. masked_prediction \<lparr>shape = [2, 1, 2], elems = [Fin 1, Fin 9, Fin 3, Fin 4]\<rparr> (Fin 9)
            \<lparr>shape = [1, 2], elems = [Fin 7, Fin 8]\<rparr> = Inr out
         \<and> shape out = [1, 2]
         \<and> elems out ! 0 = Fin 7 \<and> elems out ! 1 = NaN"
proof -
  let ?tile = "\<lparr>shape = [2, 1, 2], elems = [Fin 1, Fin 9, Fin 3, Fin 4]\<rparr>"
  let ?pred = "\<lparr>shape = [1, 2], elems = [Fin 7, Fin 8]\<rparr>"
  have h1: "shape ?tile = [2, 1, 2]" by simp
  have h2: "length (elems ?tile) = 2 * (1 * 2)" by simp
  have h3: "shape ?pred = [1, 2]" by simp
  have h4: "length (elems ?pred) = 1 * 2" by simp
  have n0: "\<not> (\<exists>c<2. np_eq (elems ?tile ! (c * (1 * 2) + (0 * 2 + 0))) (Fin 9))"
  proof -
    have "\<not> np_eq (elems ?tile ! (c * (1 * 2) + (0 * 2 + 0))) (Fin 9)" if "c < 2" for c :: nat
    proof -
      from that consider "c = 0" | "c = 1" by linarith
      then show ?thesis by cases (simp_all add: np_eq_def)
    qed
    then show ?thesis by blast
  qed
  have y1: "\<exists>c<2. np_eq (elems ?tile ! (c * (1 * 2) + (0 * 2 + 1))) (Fin 9)"
    by (rule exI [of _ 0]) (simp add: np_eq_def)
  have lt: "(0::nat) < 1" "(0::nat) < 2" "(1::nat) < 2"
    by simp_all
  from no_data_pixels_become_nan [OF h1 h2 h3 h4, of "Fin 9"]
  obtain out where res: "masked_prediction ?tile (Fin 9) ?pred = Inr out"
    and sh: "shape out = [1, 2]"
    and px: "\<forall>i<1. \<forall>j<2. elems out ! (i * 2 + j) =
        (if \<exists>c<2. np_eq (elems ?tile ! (c * (1 * 2) + (i * 2 + j))) (Fin 9)
         then NaN else elems ?pred ! (i * 2 + j))"
    by (elim exE conjE)
  have e0: "elems out ! 0 = Fin 7"
    using px [rule_format, OF lt(1) lt(2)] unfolding if_not_P [OF n0] by simp
  have e1: "elems out ! 1 = NaN"
    using px [rule_format, OF lt(1) lt(3)] unfolding if_P [OF y1] by simp
  show ?thesis
    using res sh e0 e1 by (intro exI [of _ out] conjI)
qed

text \<open>
  Claim C9: the per-class accuracy vector equals the per-class recall vector, entry by
  entry: both are the true positives of the class over its number of kept ground-truth
  pixels, and zero when that number is zero.
\<close>

theorem accuracy_vector_equals_recall_vector:
  assumes "torch_argmax_dim1 logits = Inr pred_mask"
    and "length pred_mask = length gt_mask"
  shows "\<exists>r. compute_metrics ign logits gt_mask = Inr r
           \<and> acc_per_class r = recall_per_class r
           \<and> length (acc_per_class r) = length (classes ign pred_mask gt_mask)
           \<and> (\<forall>k<length (classes ign pred_mask gt_mask).
                acc_per_class r ! k =
                  (if np_sum (eq_scalar (kept_gt ign gt_mask) (classes ign pred_mask gt_mask ! k)) = 0
                   then Fin 0
                   else Fin (of_int (true_positive (kept_pred ign pred_mask gt_mask) (kept_gt ign gt_mask)
                                       (classes ign pred_mask gt_mask ! k))
                             / of_int (np_sum (eq_scalar (kept_gt ign gt_mask)
                                       (classes ign pred_mask gt_mask ! k))))))"
proof -
  let ?P = "kept_pred ign pred_mask gt_mask" and ?G = "kept_gt ign gt_mask"
  have acc: "class_accuracy ?P ?G c =
      (if np_sum (eq_scalar ?G c) = 0 then Fin 0
       else Fin (of_int (true_positive ?P ?G c) / of_int (np_sum (eq_scalar ?G c))))" for c
    using np_sum_nonneg [of "eq_scalar ?G c"]
    by (simp add: class_accuracy_def true_divide_def)
  show ?thesis
    using assms
    by (simp add: compute_metrics_eq metrics_of_masks_eq class_accuracy_recall [symmetric] acc)
qed

theorem accuracy_vector_equals_recall_vector_witness:
  "torch_argmax_dim1 [[1, 0], [0, 1]] = Inr [0, 1]
   \<and> (\<exists>r. compute_metrics (- 100) [[1, 0], [0, 1]] [0, 0] = Inr r
          \<and> acc_per_class r = recall_per_class r \<and> length (acc_per_class r) = 2)"
proof -
  have h1: "torch_argmax_dim1 [[1, 0], [0, 1]] = Inr [0, 1]"
    by (simp add: mask_unfold)
  have h2: "length [0, 1 :: int] = length [0, 0 :: int]"
    by simp
  have cs: "classes (- 100) [0, 1] [0, 0] = [0, 1]"
    by (simp add: mask_unfold)
  from accuracy_vector_equals_recall_vector [OF h1 h2, of "- 100"] h1 show ?thesis
    unfolding cs by auto
qed

text \<open>
  Claim C10: when some pixel is not ignored, the IoU, accuracy, precision and recall
  vectors all have as many entries as there are distinct classes in the union of the kept
  masks, and entry \<open>k\<close> of each belongs to the \<open>k\<close>-th class in ascending order.
\<close>

theorem per_class_vectors_aligned:
  assumes "torch_argmax_dim1 logits = Inr pred_mask"
    and "length pred_mask = length gt_mask"
    and "\<exists>g\<in>set gt_mask. g \<noteq> ign"
  shows "\<exists>r. compute_metrics ign logits gt_mask = Inr r
           \<and> length (classes ign pred_mask gt_mask) =
               card (set (kept_pred ign pred_mask gt_mask) \<union> set (kept_gt ign gt_mask))
           \<and> length (iou_per_class r) = length (classes ign pred_mask gt_mask)
           \<and> length (acc_per_class r) = length (classes ign pred_mask gt_mask)
           \<and> length (precision_per_class r) = length (classes ign pred_mask gt_mask)
           \<and> length (recall_per_class r) = length (classes ign pred_mask gt_mask)
           \<and> sorted_wrt (<) (classes ign pred_mask gt_mask)
           \<and> (\<forall>k<length (classes ign pred_mask gt_mask).
                iou_per_class r ! k =
                  class_iou (kept_pred ign pred_mask gt_mask) (kept_gt ign gt_mask)
                    (classes ign pred_mask gt_mask ! k)
              \<and> acc_per_class r ! k =
                  class_accuracy (kept_pred ign pred_mask gt_mask) (kept_gt ign gt_mask)
                    (classes ign pred_mask gt_mask ! k)
              \<and> precision_per_class r ! k =
                  class_precision (kept_pred ign pred_mask gt_mask) (kept_gt ign gt_mask)
                    (classes ign pred_mask gt_mask ! k)
              \<and> recall_per_class r ! k =
                  class_recall (kept_pred ign pred_mask gt_mask) (kept_gt ign gt_mask)
                    (classes ign pred_mask gt_mask ! k))"
  using assms(1,2) strict_sorted_classes [of ign pred_mask gt_mask]
    length_classes [of ign pred_mask gt_mask]
  by (simp add: compute_metrics_eq metrics_of_masks_eq)

theorem per_class_vectors_aligned_witness:
  "torch_argmax_dim1 [[0, 0, 1], [1, 0]] = Inr [2, 0]
   \<and> (\<exists>g\<in>set [0, 0 :: int]. g \<noteq> - 100)
   \<and> classes (- 100) [2, 0] [0, 0] = [0, 2]
   \<and> (\<exists>r. compute_metrics (- 100) [[0, 0, 1], [1, 0]] [0, 0] = Inr r
          \<and> length (iou_per_class r) = 2 \<and> length (acc_per_class r) = 2
          \<and> length (precision_per_class r) = 2 \<and> length (recall_per_class r) = 2)"
proof -
  have h1: "torch_argmax_dim1 [[0, 0, 1], [1, 0]] = Inr [2, 0]"
    by (simp add: mask_unfold)
  have h2: "length [2, 0 :: int] = length [0, 0 :: int]"
    by simp
  have h3: "\<exists>g\<in>set [0, 0 :: int]. g \<noteq> - 100"
    by simp
  have cs: "classes (- 100) [2, 0] [0, 0] = [0, 2]"
    by (simp add: mask_unfold)
  from per_class_vectors_aligned [OF h1 h2 h3] h1 h3 cs show ?thesis
    by auto
qed

end
